theory Spec2Isabelle
  imports Main
begin

section \<open>DVCWorker: the data model\<close>

text \<open>
  The embedding follows \<^verbatim>\<open>PostprocessingServer/DVCWorker.py\<close>. The worker scripts
  three outside parties: the file system, the \<^verbatim>\<open>git\<close> and \<^verbatim>\<open>dvc\<close> binaries (through
  \<^verbatim>\<open>subprocess.run(..., check=True)\<close>) and an S3 client. None of them is part of the
  repository, so they are parameters of the model (the record \<open>env\<close> below); what the
  worker does with their answers is translated line by line.

  A \<^verbatim>\<open>pathlib.Path\<close> is the list of its components below the root. Every path the
  worker receives is resolved first (\<^verbatim>\<open>Path(p).resolve()\<close>, in \<^verbatim>\<open>pull\<close> and
  \<^verbatim>\<open>push\<close> before their \<^verbatim>\<open>try\<close>); the model takes the resolved path as its input,
  so every operation below is the method from the resolved path on, and an exception of
  \<^verbatim>\<open>resolve()\<close> itself is not part of it. The operator \<^verbatim>\<open>/\<close> is applied to names only (\<^verbatim>\<open>".dvc"\<close>,
  \<^verbatim>\<open>".git"\<close>, the stage type, the folder name, the manifest's file name); \<open>joinpath\<close>
  appends the name as one component, which is what \<^verbatim>\<open>pathlib\<close> does with a name that
  holds no separator. \<open>parent\<close>, \<open>name\<close> and \<open>str_path\<close> are \<^verbatim>\<open>Path.parent\<close>,
  \<^verbatim>\<open>Path.name\<close> and \<^verbatim>\<open>str(path)\<close>.
\<close>

type_synonym path = "string list"

definition str_path :: "path \<Rightarrow> string" where
  "str_path p = (if p = [] then ''/'' else concat (map (\<lambda>c. ''/'' @ c) p))"

definition parent :: "path \<Rightarrow> path" where
  "parent p = butlast p"

definition name :: "path \<Rightarrow> string" where
  "name p = (if p = [] then [] else last p)"

definition joinpath :: "path \<Rightarrow> string \<Rightarrow> path" where
  "joinpath p c = p @ [c]"

text \<open>
  Exceptions carry the text \<^verbatim>\<open>str(e)\<close> gives; a \<^verbatim>\<open>CalledProcessError\<close> also carries
  the captured \<^verbatim>\<open>stdout\<close> and \<^verbatim>\<open>stderr\<close>. \<open>OtherException\<close> stands for every other
  subclass of \<^verbatim>\<open>Exception\<close> (an \<^verbatim>\<open>OSError\<close> of \<^verbatim>\<open>shutil.copy\<close>, a \<^verbatim>\<open>ClientError\<close> of the
  S3 client, ...).
\<close>

datatype exn =
    FileNotFoundError string
  | CalledProcessError string string string
  | NoSuchBucket string
  | OtherException string

fun str_exn :: "exn \<Rightarrow> string" where
  "str_exn (FileNotFoundError m) = m"
| "str_exn (CalledProcessError m out err) = m"
| "str_exn (NoSuchBucket m) = m"
| "str_exn (OtherException m) = m"

text \<open>The status dictionaries the operations return, e.g.
  \<^verbatim>\<open>{"status": "success", "message": ...}\<close>.\<close>

type_synonym result = "(string \<times> string) list"

definition status :: "result \<Rightarrow> string option" where
  "status r = map_of r ''status''"

text \<open>The fields of \<^verbatim>\<open>self\<close> that \<^verbatim>\<open>__init__\<close> sets (the S3 client and the logger
  belong to the environment).\<close>

record worker =
  dag_id :: string
  execution_id :: string
  git_repo_path :: path
  minio_bucket :: string
  minio_url :: string
  access_key :: string
  secret_key :: string
  remote_name :: string

text \<open>
  Every call that leaves the process is recorded, in order, in a trace: a subprocess with
  its argument vector and working directory, a directory creation, a file copy, the four
  S3 calls with their arguments, and each call of the logger with its level
  (\<^verbatim>\<open>self.logger.info\<close>, \<^verbatim>\<open>.debug\<close>, \<^verbatim>\<open>.error\<close>). The text of a log line is not
  recorded: no result depends on it.
\<close>

datatype level = DEBUG | INFO | ERROR

datatype event =
    Subprocess "string list" path
  | Mkdir path
  | Copy string string
  | HeadBucket string
  | CreateBucket string
  | UploadFile string string string
  | DownloadFile string string string
  | Log level

text \<open>
  The environment, over a type \<open>'w\<close> of outside worlds.
  \<^item> \<open>path_exists\<close> is \<^verbatim>\<open>Path.exists()\<close>, taken to answer with a Boolean.
  \<^item> \<open>path_mkdir\<close> is \<^verbatim>\<open>Path.mkdir(parents=True, exist_ok=True)\<close>, \<open>shutil_copy\<close> is
    \<^verbatim>\<open>shutil.copy(src, dst)\<close>; \<open>None\<close> means the call returned, \<open>Some e\<close> that it raised.
  \<^item> \<open>run_checked\<close> is \<^verbatim>\<open>subprocess.run(cmd, check=True, cwd=...)\<close>: it returns the
    captured \<open>(stdout, stderr)\<close> when the command exits with status zero and raises
    otherwise (\<^verbatim>\<open>CalledProcessError\<close> on a non-zero exit status; something else when the
    program cannot be started).
  \<^item> \<open>head_bucket\<close>, \<open>create_bucket\<close>, \<open>upload_file local bucket key\<close> and
    \<open>download_file bucket key local\<close> are the methods of the S3 client.
\<close>

record 'w env =
  path_exists :: "path \<Rightarrow> 'w \<Rightarrow> bool"
  path_mkdir :: "path \<Rightarrow> 'w \<Rightarrow> exn option \<times> 'w"
  shutil_copy :: "string \<Rightarrow> string \<Rightarrow> 'w \<Rightarrow> exn option \<times> 'w"
  run_checked :: "string list \<Rightarrow> path \<Rightarrow> 'w \<Rightarrow> (exn + string \<times> string) \<times> 'w"
  head_bucket :: "string \<Rightarrow> 'w \<Rightarrow> exn option \<times> 'w"
  create_bucket :: "string \<Rightarrow> 'w \<Rightarrow> exn option \<times> 'w"
  upload_file :: "string \<Rightarrow> string \<Rightarrow> string \<Rightarrow> 'w \<Rightarrow> exn option \<times> 'w"
  download_file :: "string \<Rightarrow> string \<Rightarrow> string \<Rightarrow> 'w \<Rightarrow> exn option \<times> 'w"

record 'w state =
  world :: 'w
  trace :: "event list"

section \<open>Control flow: returning, raising, sequencing, try/except\<close>

type_synonym ('a, 'w) io = "'w state \<Rightarrow> (exn + 'a) \<times> 'w state"

definition returnM :: "'a \<Rightarrow> ('a, 'w) io" where
  "returnM x s = (Inr x, s)"

definition raiseM :: "exn \<Rightarrow> ('a, 'w) io" where
  "raiseM e s = (Inl e, s)"

definition bindM :: "('a, 'w) io \<Rightarrow> ('a \<Rightarrow> ('b, 'w) io) \<Rightarrow> ('b, 'w) io" where
  "bindM m f s = (case m s of (Inl e, s') \<Rightarrow> (Inl e, s') | (Inr x, s') \<Rightarrow> f x s')"

definition thenM :: "('a, 'w) io \<Rightarrow> ('b, 'w) io \<Rightarrow> ('b, 'w) io" where
  "thenM m k = bindM m (\<lambda>_. k)"

text \<open>
  \<^verbatim>\<open>try: m  except ...\<close>: the handler answers \<open>Some k\<close> for an exception one of the
  \<^verbatim>\<open>except\<close> clauses matches (the first that does) and \<open>None\<close> for one that none
  matches, which then propagates.
\<close>

definition try_except :: "('a, 'w) io \<Rightarrow> (exn \<Rightarrow> ('a, 'w) io option) \<Rightarrow> ('a, 'w) io" where
  "try_except m h s =
     (case m s of
        (Inl e, s') \<Rightarrow> (case h e of Some k \<Rightarrow> k s' | None \<Rightarrow> (Inl e, s'))
      | (Inr x, s') \<Rightarrow> (Inr x, s'))"

definition emit :: "event \<Rightarrow> 'w state \<Rightarrow> 'w state" where
  "emit ev s = s\<lparr>trace := trace s @ [ev]\<rparr>"

definition logger :: "level \<Rightarrow> (unit, 'w) io" where
  "logger l s = (Inr (), emit (Log l) s)"

text \<open>A call of the environment that returns nothing: record it, run it, raise what it
  raised.\<close>

definition call :: "event \<Rightarrow> ('w \<Rightarrow> exn option \<times> 'w) \<Rightarrow> (unit, 'w) io" where
  "call ev f s =
     (case f (world s) of
        (None, w') \<Rightarrow> (Inr (), emit ev (s\<lparr>world := w'\<rparr>))
      | (Some e, w') \<Rightarrow> (Inl e, emit ev (s\<lparr>world := w'\<rparr>)))"

definition exists_path :: "'w env \<Rightarrow> path \<Rightarrow> (bool, 'w) io" where
  "exists_path E p s = (Inr (path_exists E p (world s)), s)"

definition subprocess_run :: "'w env \<Rightarrow> string list \<Rightarrow> path \<Rightarrow> (string \<times> string, 'w) io" where
  "subprocess_run E cmd cwd s =
     (case run_checked E cmd cwd (world s) of
        (r, w') \<Rightarrow> (r, emit (Subprocess cmd cwd) (s\<lparr>world := w'\<rparr>)))"

definition apostrophe :: string where
  "apostrophe = [CHR 0x27]"

section \<open>The operations of DVCWorker\<close>

definition create_directory_if_not_exists :: "'w env \<Rightarrow> path \<Rightarrow> (unit, 'w) io" where
  "create_directory_if_not_exists E path =
     bindM (exists_path E path) (\<lambda>ex.
       if \<not> ex then
         thenM (logger INFO)
        (thenM (call (Mkdir path) (path_mkdir E path))
               (logger INFO))
       else logger INFO)"

definition ensure_git_repository :: "'w env \<Rightarrow> worker \<Rightarrow> (unit, 'w) io" where
  "ensure_git_repository E W =
     (let git_dir = joinpath (git_repo_path W) ''.git'' in
      bindM (exists_path E git_dir) (\<lambda>ex.
        if \<not> ex then
          thenM (logger INFO)
         (thenM (subprocess_run E [''git'', ''init''] (git_repo_path W))
                (logger INFO))
        else logger INFO))"

text \<open>\<^verbatim>\<open>__init__\<close>: the fields, then the archive directory and its Git repository.\<close>

definition init_DVCWorker ::
  "'w env \<Rightarrow> string \<Rightarrow> string \<Rightarrow> string \<Rightarrow> string \<Rightarrow> string \<Rightarrow> string \<Rightarrow> path
     \<Rightarrow> (worker, 'w) io" where
  "init_DVCWorker E dag execution bucket url akey skey repo =
     (let W = \<lparr>dag_id = dag, execution_id = execution, git_repo_path = repo,
                minio_bucket = bucket, minio_url = url, access_key = akey,
                secret_key = skey,
                remote_name = ''remote_'' @ dag @ ''_'' @ execution\<rparr> in
      thenM (create_directory_if_not_exists E (git_repo_path W))
     (thenM (ensure_git_repository E W)
            (returnM W)))"

definition bucket_exists :: "'w env \<Rightarrow> string \<Rightarrow> (bool, 'w) io" where
  "bucket_exists E bucket_name =
     try_except
       (thenM (call (HeadBucket bucket_name) (head_bucket E bucket_name))
              (returnM True))
       (\<lambda>e. case e of
          NoSuchBucket m \<Rightarrow> Some (returnM False)
        | _ \<Rightarrow> Some (thenM (logger ERROR) (returnM False)))"

definition configure_remote :: "'w env \<Rightarrow> worker \<Rightarrow> path \<Rightarrow> string \<Rightarrow> string \<Rightarrow> (result, 'w) io" where
  "configure_remote E W project_path appointed_bucket service_type =
     try_except
       (thenM
          (bindM (bucket_exists E appointed_bucket) (\<lambda>ex.
             if \<not> ex then
               thenM (call (CreateBucket appointed_bucket) (create_bucket E appointed_bucket))
                     (logger INFO)
             else logger INFO))
          (let remote_path = ''s3://'' @ appointed_bucket @ ''/'' @ dag_id W @ ''_''
                 @ execution_id W @ ''/'' @ service_type @ ''/dataset'' in
           thenM (subprocess_run E
                    [''dvc'', ''remote'', ''add'', ''-d'', remote_name W, remote_path, ''--force'']
                    project_path)
          (thenM (subprocess_run E
                    [''dvc'', ''remote'', ''modify'', remote_name W, ''endpointurl'', minio_url W]
                    project_path)
          (thenM (subprocess_run E
                    [''dvc'', ''remote'', ''modify'', remote_name W, ''access_key_id'', access_key W]
                    project_path)
          (thenM (subprocess_run E
                    [''dvc'', ''remote'', ''modify'', remote_name W, ''secret_access_key'',
                     secret_key W]
                    project_path)
          (thenM (subprocess_run E
                    [''dvc'', ''remote'', ''modify'', remote_name W, ''use_ssl'', ''false'']
                    project_path)
          (thenM (logger INFO)
                 (returnM [(''status'', ''success''),
                           (''message'',
                            ''DVC initialized and MinIO remote configured successfully.'')]))))))))
       (\<lambda>e. case e of
          CalledProcessError m out err \<Rightarrow>
            Some (returnM [(''status'', ''error''), (''message'', str_exn e)])
        | _ \<Rightarrow> Some (returnM [(''status'', ''error''), (''message'', str_exn e)]))"

definition initialize_dvc :: "'w env \<Rightarrow> worker \<Rightarrow> path \<Rightarrow> string \<Rightarrow> (result, 'w) io" where
  "initialize_dvc E W dvc_repo_path stage_type =
     (let dvc_path = joinpath dvc_repo_path ''.dvc'';
          service_type = stage_type in
      thenM (bindM (exists_path E dvc_path) (\<lambda>ex.
               if \<not> ex then
                 thenM (logger DEBUG)
                (thenM (subprocess_run E [''dvc'', ''init'', ''--no-scm''] dvc_repo_path)
                       (returnM ()))
               else returnM ()))
     (thenM (ensure_git_repository E W)
            (let appointed_data_bucket = minio_bucket W in
             configure_remote E W dvc_repo_path appointed_data_bucket service_type)))"

text \<open>The source drops what \<^verbatim>\<open>initialize_dvc\<close> returns; \<^verbatim>\<open>ensure_dvc_repository\<close>
  itself returns \<^verbatim>\<open>None\<close>.\<close>

definition ensure_dvc_repository :: "'w env \<Rightarrow> worker \<Rightarrow> path \<Rightarrow> string \<Rightarrow> (unit, 'w) io" where
  "ensure_dvc_repository E W folder_path stage_type =
     (let dvc_dir = joinpath folder_path ''.dvc'' in
      bindM (exists_path E dvc_dir) (\<lambda>ex.
        if \<not> ex then
          thenM (logger INFO)
         (thenM (initialize_dvc E W folder_path stage_type)
                (logger INFO))
        else returnM ()))"

text \<open>
  \<^verbatim>\<open>str.strip()\<close> removes leading and trailing whitespace; \<^verbatim>\<open>not s.strip()\<close> holds
  when nothing is left. The whitespace characters below are the ASCII ones Python
  recognises.
\<close>

definition isspace :: "char \<Rightarrow> bool" where
  "isspace c = (c \<in> set [CHR 0x09, CHR 0x0A, CHR 0x0B, CHR 0x0C, CHR 0x0D,
                          CHR 0x1C, CHR 0x1D, CHR 0x1E, CHR 0x1F, CHR 0x20])"

definition strip :: "string \<Rightarrow> string" where
  "strip s = rev (dropWhile isspace (rev (dropWhile isspace s)))"

text \<open>The parameter \<^verbatim>\<open>project_path\<close> is not used by the source: every command runs in
  \<^verbatim>\<open>self.git_repo_path\<close>. The push of the archive is commented out there.\<close>

definition git_add_commit_and_push :: "'w env \<Rightarrow> worker \<Rightarrow> path \<Rightarrow> string \<Rightarrow> (result, 'w) io" where
  "git_add_commit_and_push E W project_path message =
     try_except
       (thenM (subprocess_run E [''git'', ''add'', ''.''] (git_repo_path W))
       (bindM (subprocess_run E [''git'', ''status'', ''--porcelain''] (git_repo_path W))
          (\<lambda>(stdout, stderr).
             if strip stdout = [] then
               thenM (logger INFO)
                     (returnM [(''status'', ''success''),
                               (''message'', ''No changes to commit in Git repository.'')])
             else
               thenM (subprocess_run E [''git'', ''commit'', ''-m'', message] (git_repo_path W))
              (thenM (logger INFO)
                     (returnM [(''status'', ''success''),
                               (''message'',
                                ''Changes committed (and optionally pushed) to Git repository.'')])))))
       (\<lambda>e. case e of
          CalledProcessError m out err \<Rightarrow>
            Some (thenM (logger ERROR)
                        (returnM [(''status'', ''error''), (''message'', str_exn e)]))
        | _ \<Rightarrow> None)"

text \<open>
  \<^verbatim>\<open>add\<close>: the folder must exist, else \<^verbatim>\<open>FileNotFoundError\<close> is raised, outside the
  \<^verbatim>\<open>try\<close>. The \<^verbatim>\<open>except\<close> clause catches \<^verbatim>\<open>CalledProcessError\<close> only. What
  \<^verbatim>\<open>git_add_commit_and_push\<close> returns is not looked at.
\<close>

definition add :: "'w env \<Rightarrow> worker \<Rightarrow> path \<Rightarrow> string \<Rightarrow> string \<Rightarrow> (result, 'w) io" where
  "add E W folder_path folder_name stage_type =
     bindM (exists_path E folder_path) (\<lambda>ex.
       if \<not> ex then
         raiseM (FileNotFoundError
                   (''The folder '' @ apostrophe @ str_path folder_path @ apostrophe
                      @ '' does not exist.''))
       else
         try_except
           (thenM (subprocess_run E [''dvc'', ''add'', str_path folder_path] (parent folder_path))
           (thenM (logger INFO)
           (let dvc_file = joinpath (parent folder_path) (folder_name @ ''.dvc'') in
            bindM (exists_path E dvc_file) (\<lambda>present.
              if present then
                (let appointed_dvc_file_storage_folder =
                       joinpath (joinpath (git_repo_path W) stage_type)
                                (stage_type @ ''_'' @ folder_name) in
                 thenM (create_directory_if_not_exists E appointed_dvc_file_storage_folder)
                (thenM (call (Copy (str_path dvc_file) (str_path appointed_dvc_file_storage_folder))
                             (shutil_copy E (str_path dvc_file)
                                (str_path appointed_dvc_file_storage_folder)))
                (thenM (git_add_commit_and_push E W (git_repo_path W)
                          (''Add '' @ folder_name @ '' dataset DVC file''))
                       (returnM [(''status'', ''success''),
                                 (''message'', ''Folder '' @ folder_name
                                    @ '' added to DVC tracking and DVC file committed to Git.'')]))))
              else
                thenM (logger ERROR)
                      (returnM [(''status'', ''error''),
                                (''message'', ''.dvc file not found for '' @ folder_name @ ''.'')])))))
           (\<lambda>e. case e of
              CalledProcessError m out err \<Rightarrow>
                Some (thenM (logger ERROR)
                            (returnM [(''status'', ''error''), (''message'', str_exn e)]))
            | _ \<Rightarrow> None))"

definition push :: "'w env \<Rightarrow> path \<Rightarrow> (result, 'w) io" where
  "push E folder_path =
     (let root_folder_path = parent folder_path in
      try_except
        (bindM (subprocess_run E [''dvc'', ''push''] root_folder_path) (\<lambda>(stdout, stderr).
           thenM (logger INFO)
                 (returnM [(''status'', ''success''), (''stdout'', stdout), (''stderr'', stderr)])))
        (\<lambda>e. case e of
           CalledProcessError m out err \<Rightarrow>
             Some (thenM (logger ERROR)
                  (thenM (logger ERROR)
                         (returnM [(''status'', ''error''), (''stdout'', out), (''stderr'', err)])))
         | _ \<Rightarrow> Some (thenM (logger ERROR)
                             (returnM [(''status'', ''error''), (''message'', str_exn e)]))))"

definition upload_dvc_file_to_minio :: "'w env \<Rightarrow> worker \<Rightarrow> path \<Rightarrow> string \<Rightarrow> (result, 'w) io" where
  "upload_dvc_file_to_minio E W dvc_file_path stage_type =
     try_except
       (thenM
          (bindM (bucket_exists E (minio_bucket W)) (\<lambda>ex.
             if \<not> ex then
               thenM (logger INFO)
              (thenM (call (CreateBucket (minio_bucket W)) (create_bucket E (minio_bucket W)))
                     (logger INFO))
             else returnM ()))
          (let target_path = dag_id W @ ''_'' @ execution_id W @ ''/'' @ stage_type
                 @ ''/dvc_files/'' @ name dvc_file_path in
           thenM (call (UploadFile (str_path dvc_file_path) (minio_bucket W) target_path)
                       (upload_file E (str_path dvc_file_path) (minio_bucket W) target_path))
          (thenM (logger INFO)
                 (returnM [(''status'', ''success''),
                           (''message'', ''Uploaded .dvc file to MinIO at '' @ minio_bucket W
                              @ ''/'' @ target_path)]))))
       (\<lambda>e. Some (thenM (logger ERROR)
                         (returnM [(''status'', ''error''), (''message'', str_exn e)])))"

text \<open>\<^verbatim>\<open>add_result["status"] == "error"\<close> is the test on each step's dictionary.\<close>

definition add_and_push_data :: "'w env \<Rightarrow> worker \<Rightarrow> path \<Rightarrow> string \<Rightarrow> string \<Rightarrow> (result, 'w) io" where
  "add_and_push_data E W folder_path folder_name stage_type =
     bindM (exists_path E folder_path) (\<lambda>ex.
       if \<not> ex then
         raiseM (FileNotFoundError
                   (''The folder '' @ apostrophe @ str_path folder_path @ apostrophe
                      @ '' does not exist.''))
       else
         bindM (add E W folder_path folder_name stage_type) (\<lambda>add_result.
           if status add_result = Some ''error'' then returnM add_result
           else
             bindM (push E folder_path) (\<lambda>push_result.
               if status push_result = Some ''error'' then returnM push_result
               else
                 (let dvc_file = joinpath (parent folder_path) (folder_name @ ''.dvc'') in
                  bindM (upload_dvc_file_to_minio E W dvc_file stage_type) (\<lambda>upload_result.
                    if status upload_result = Some ''error'' then returnM upload_result
                    else returnM [(''status'', ''success''),
                                  (''message'', ''Data added to DVC, pushed to remote storage, and .dvc file uploaded to MinIO.'')])))))"

definition download_dvc_file_from_minio ::
  "'w env \<Rightarrow> worker \<Rightarrow> string \<Rightarrow> path \<Rightarrow> string \<Rightarrow> (unit, 'w) io" where
  "download_dvc_file_from_minio E W dvc_filename target_path stage_type =
     try_except
       (let minio_key = stage_type @ ''/'' @ dvc_filename in
        thenM (call (DownloadFile (minio_bucket W) minio_key (str_path target_path))
                    (download_file E (minio_bucket W) minio_key (str_path target_path)))
              (logger INFO))
       (\<lambda>e. Some (thenM (logger ERROR)
                         (raiseM (FileNotFoundError
                            (''Failed to download '' @ dvc_filename @ '' from MinIO: ''
                               @ str_exn e)))))"

text \<open>
  \<^verbatim>\<open>pull\<close>: the whole body is inside a \<^verbatim>\<open>try\<close> whose clauses are
  \<^verbatim>\<open>except FileNotFoundError\<close> and \<^verbatim>\<open>except Exception\<close>, so the
  \<^verbatim>\<open>FileNotFoundError\<close> raised for a missing destination folder is caught there.
\<close>

definition pull :: "'w env \<Rightarrow> worker \<Rightarrow> string \<Rightarrow> string \<Rightarrow> path \<Rightarrow> (result, 'w) io" where
  "pull E W stage_type dvc_filename folder_path =
     try_except
       (bindM (exists_path E folder_path) (\<lambda>ex.
          if \<not> ex then
            raiseM (FileNotFoundError
                      (''Destination folder '' @ str_path folder_path @ '' does not exist.''))
          else
            thenM (ensure_dvc_repository E W folder_path stage_type)
              (let dvc_file_key = dag_id W @ ''_'' @ execution_id W @ ''/'' @ stage_type
                     @ ''/dvc_files/'' @ dvc_filename;
                   local_dvc_file_path = joinpath folder_path dvc_filename in
               bindM
                 (try_except
                    (thenM (logger INFO)
                    (thenM (call (DownloadFile (minio_bucket W) dvc_file_key
                                    (str_path local_dvc_file_path))
                                 (download_file E (minio_bucket W) dvc_file_key
                                    (str_path local_dvc_file_path)))
                    (thenM (logger INFO)
                           (returnM None))))
                    (\<lambda>e. Some (thenM (logger ERROR)
                                      (returnM (Some [(''status'', ''error''),
                                         (''message'', ''Failed to download .dvc file from MinIO: ''
                                            @ str_exn e)])))))
                 (\<lambda>returned. case returned of
                    Some r \<Rightarrow> returnM r
                  | None \<Rightarrow>
                      try_except
                        (bindM (subprocess_run E [''dvc'', ''pull'', str_path local_dvc_file_path]
                                  folder_path) (\<lambda>(stdout, stderr).
                           thenM (logger INFO)
                                 (returnM [(''status'', ''success''), (''stdout'', stdout),
                                           (''stderr'', stderr)])))
                        (\<lambda>e. case e of
                           CalledProcessError m out err \<Rightarrow>
                             Some (thenM (logger ERROR)
                                         (returnM [(''status'', ''error''), (''stdout'', out),
                                                   (''stderr'', err)]))
                         | _ \<Rightarrow> None)))))
       (\<lambda>e. case e of
          FileNotFoundError m \<Rightarrow>
            Some (thenM (logger ERROR)
                        (returnM [(''status'', ''error''), (''message'', str_exn e)]))
        | _ \<Rightarrow> Some (thenM (logger ERROR)
                            (returnM [(''status'', ''error''), (''message'', str_exn e)])))"

section \<open>Observing what an operation did\<close>

text \<open>The events an operation added to the trace, given the state before and after.\<close>

definition new_events :: "'w state \<Rightarrow> 'w state \<Rightarrow> event list" where
  "new_events s s' = drop (length (trace s)) (trace s')"

text \<open>The versioning tool's pull command: \<^verbatim>\<open>dvc pull ...\<close>.\<close>

fun is_dvc_pull :: "event \<Rightarrow> bool" where
  "is_dvc_pull (Subprocess cmd cwd) = (take 2 cmd = [''dvc'', ''pull''])"
| "is_dvc_pull _ = False"

text \<open>A download of an object from the store.\<close>

fun is_download_file :: "event \<Rightarrow> bool" where
  "is_download_file (DownloadFile b k l) = True"
| "is_download_file _ = False"


text \<open>The events that setting up a folder can cause: \<^verbatim>\<open>git init\<close>, \<^verbatim>\<open>dvc init\<close>,
  \<^verbatim>\<open>dvc remote ...\<close>, the bucket probe and creation, and log lines.\<close>

fun setup_event :: "event \<Rightarrow> bool" where
  "setup_event (Subprocess cmd cwd) =
     (take 2 cmd = [''git'', ''init''] \<or> take 2 cmd = [''dvc'', ''init'']
      \<or> take 2 cmd = [''dvc'', ''remote''])"
| "setup_event (Log l) = True"
| "setup_event (HeadBucket b) = True"
| "setup_event (CreateBucket b) = True"
| "setup_event _ = False"

text \<open>\<open>emits Q m\<close>: whatever the state, \<open>m\<close> only appends to the trace, and every event
  it appends satisfies \<open>Q\<close>.\<close>

definition emits :: "(event \<Rightarrow> bool) \<Rightarrow> ('a, 'w) io \<Rightarrow> bool" where
  "emits Q m \<longleftrightarrow> (\<forall>s. \<exists>evs. trace (snd (m s)) = trace s @ evs \<and> list_all Q evs)"

section \<open>A simulated outside world\<close>

text \<open>
  A small concrete environment on which the operations can be run: a list of existing
  paths, the buckets and objects of the store, the commands that exit with a non-zero
  status (given by a prefix of their argument vector), whether \<^verbatim>\<open>dvc add\<close> writes its
  \<^verbatim>\<open>.dvc\<close> file, what \<^verbatim>\<open>git status --porcelain\<close> prints, and a fault every S3 call
  raises when set.
\<close>

record sim =
  files :: "path list"
  buckets :: "string list"
  objects :: "(string \<times> string) list"
  failing :: "string list list"
  writes_dvc_file :: bool
  porcelain :: string
  s3_fault :: "exn option"

definition basename :: "string \<Rightarrow> string" where
  "basename t = rev (takeWhile (\<lambda>c. c \<noteq> CHR ''/'') (rev t))"

definition sim_run :: "string list \<Rightarrow> path \<Rightarrow> sim \<Rightarrow> (exn + string \<times> string) \<times> sim" where
  "sim_run cmd cwd w =
     (if list_ex (\<lambda>pre. take (length pre) cmd = pre) (failing w)
      then (Inl (CalledProcessError ''non-zero exit status'' [] ''failed''), w)
      else if take 2 cmd = [''dvc'', ''add''] \<and> writes_dvc_file w
      then (Inr ([], []), w\<lparr>files := (cwd @ [basename (last cmd) @ ''.dvc'']) # files w\<rparr>)
      else if cmd = [''git'', ''status'', ''--porcelain'']
      then (Inr (porcelain w, []), w)
      else (Inr ([], []), w))"

definition sim_s3 :: "(sim \<Rightarrow> exn option \<times> sim) \<Rightarrow> sim \<Rightarrow> exn option \<times> sim" where
  "sim_s3 f w = (case s3_fault w of Some e \<Rightarrow> (Some e, w) | None \<Rightarrow> f w)"

definition sim_env :: "sim env" where
  "sim_env =
     \<lparr>path_exists = (\<lambda>p w. p \<in> set (files w)),
      path_mkdir = (\<lambda>p w. (None, w\<lparr>files := p # files w\<rparr>)),
      shutil_copy = (\<lambda>src dst w. (None, w)),
      run_checked = sim_run,
      head_bucket = (\<lambda>b. sim_s3 (\<lambda>w.
         if b \<in> set (buckets w) then (None, w)
         else (Some (NoSuchBucket ''The specified bucket does not exist''), w))),
      create_bucket = (\<lambda>b. sim_s3 (\<lambda>w. (None, w\<lparr>buckets := b # buckets w\<rparr>))),
      upload_file = (\<lambda>l b k. sim_s3 (\<lambda>w.
         if b \<in> set (buckets w) then (None, w\<lparr>objects := (b, k) # objects w\<rparr>)
         else (Some (OtherException ''NoSuchBucket''), w))),
      download_file = (\<lambda>b k l. sim_s3 (\<lambda>w.
         if (b, k) \<in> set (objects w) then (None, w)
         else (Some (OtherException ''Not Found''), w)))\<rparr>"

definition sim_worker :: worker where
  "sim_worker =
     \<lparr>dag_id = ''P1'', execution_id = ''R1'', git_repo_path = [''repo''],
      minio_bucket = ''bkt'', minio_url = ''http://minio:9000'', access_key = ''ak'',
      secret_key = ''sk'', remote_name = ''remote_P1_R1''\<rparr>"

text \<open>The artifact folder \<^verbatim>\<open>/out/result\<close>, a destination folder \<^verbatim>\<open>/in\<close>, the archive
  \<^verbatim>\<open>/repo\<close> (a Git repository already), an empty store, a dirty archive.\<close>

definition sim_world :: sim where
  "sim_world =
     \<lparr>files = [[''out'', ''result''], [''out''], [''in''], [''repo''], [''repo'', ''.git'']],
      buckets = [], objects = [], failing = [], writes_dvc_file = True,
      porcelain = ''A  preprocess/preprocess_result/result.dvc'', s3_fault = None\<rparr>"

definition sim_state :: "sim \<Rightarrow> sim state" where
  "sim_state w = \<lparr>world = w, trace = []\<rparr>"

section \<open>Reasoning rules\<close>

lemmas io_defs = bindM_def thenM_def returnM_def raiseM_def try_except_def logger_def call_def
  exists_path_def subprocess_run_def emit_def Let_def

lemmas op_defs = create_directory_if_not_exists_def ensure_git_repository_def bucket_exists_def
  configure_remote_def initialize_dvc_def ensure_dvc_repository_def git_add_commit_and_push_def
  add_def push_def upload_dvc_file_to_minio_def add_and_push_data_def pull_def

lemmas sim_defs = sim_env_def sim_run_def sim_s3_def sim_worker_def sim_world_def sim_state_def
  basename_def str_path_def parent_def joinpath_def name_def apostrophe_def strip_def isspace_def
  status_def

lemmas eval_defs = op_defs io_defs sim_defs new_events_def

subsection \<open>What an operation may add to the trace\<close>

lemma emitsD:
  "emits Q m \<Longrightarrow> m s = (r, s') \<Longrightarrow> \<exists>evs. trace s' = trace s @ evs \<and> list_all Q evs"
  unfolding emits_def by (metis snd_conv)

lemma emits_weaken: "emits P m \<Longrightarrow> (\<And>ev. P ev \<Longrightarrow> Q ev) \<Longrightarrow> emits Q m"
  unfolding emits_def by (metis (mono_tags, lifting) list_all_iff)

lemma emits_new_events:
  "emits Q m \<Longrightarrow> ev \<in> set (new_events s (snd (m s))) \<Longrightarrow> Q ev"
  unfolding emits_def new_events_def
  by (metis append_eq_conv_conj list_all_iff)

lemma emits_returnM: "emits Q (returnM x)"
  by (simp add: emits_def returnM_def)

lemma emits_raiseM: "emits Q (raiseM e)"
  by (simp add: emits_def raiseM_def)

lemma emits_exists_path: "emits Q (exists_path E p)"
  by (simp add: emits_def exists_path_def)

lemma emits_logger: "Q (Log l) \<Longrightarrow> emits Q (logger l)"
  by (simp add: emits_def logger_def emit_def)

lemma emits_call: "Q ev \<Longrightarrow> emits Q (call ev f)"
  by (auto simp add: emits_def call_def emit_def split: prod.splits option.splits)

lemma emits_subprocess_run: "Q (Subprocess cmd cwd) \<Longrightarrow> emits Q (subprocess_run E cmd cwd)"
  by (auto simp add: emits_def subprocess_run_def emit_def split: prod.splits)

lemma emits_bindM:
  assumes "emits Q m" and "\<And>x. emits Q (f x)"
  shows "emits Q (bindM m f)"
  unfolding emits_def
proof
  fix s
  obtain r s1 where ms: "m s = (r, s1)" by (cases "m s")
  from emitsD[OF assms(1) ms] obtain evs where e1: "trace s1 = trace s @ evs" "list_all Q evs"
    by blast
  show "\<exists>evs. trace (snd (bindM m f s)) = trace s @ evs \<and> list_all Q evs"
  proof (cases r)
    case (Inl e)
    with ms e1 show ?thesis by (simp add: bindM_def)
  next
    case (Inr x)
    obtain r2 s2 where fs: "f x s1 = (r2, s2)" by (cases "f x s1")
    from emitsD[OF assms(2) fs] obtain evs2
      where e2: "trace s2 = trace s1 @ evs2" "list_all Q evs2" by blast
    from Inr ms fs e1 e2 show ?thesis by (simp add: bindM_def)
  qed
qed

lemma emits_thenM: "emits Q m \<Longrightarrow> emits Q k \<Longrightarrow> emits Q (thenM m k)"
  by (simp add: thenM_def emits_bindM)

lemma emits_try_except:
  assumes "emits Q m" and "\<And>e k. h e = Some k \<Longrightarrow> emits Q k"
  shows "emits Q (try_except m h)"
  unfolding emits_def
proof
  fix s
  obtain r s1 where ms: "m s = (r, s1)" by (cases "m s")
  from emitsD[OF assms(1) ms] obtain evs where e1: "trace s1 = trace s @ evs" "list_all Q evs"
    by blast
  show "\<exists>evs. trace (snd (try_except m h s)) = trace s @ evs \<and> list_all Q evs"
  proof (cases r)
    case (Inr x)
    with ms e1 show ?thesis by (simp add: try_except_def)
  next
    case (Inl e)
    show ?thesis
    proof (cases "h e")
      case None
      with Inl ms e1 show ?thesis by (simp add: try_except_def)
    next
      case (Some k)
      obtain r2 s2 where ks: "k s1 = (r2, s2)" by (cases "k s1")
      from emitsD[OF assms(2)[OF Some] ks] obtain evs2
        where e2: "trace s2 = trace s1 @ evs2" "list_all Q evs2" by blast
      from Inl Some ms ks e1 e2 show ?thesis by (simp add: try_except_def)
    qed
  qed
qed

lemma emits_if:
  "(c \<Longrightarrow> emits Q a) \<Longrightarrow> (\<not> c \<Longrightarrow> emits Q b) \<Longrightarrow> emits Q (if c then a else b)"
  by simp

lemma emits_case_prod: "(\<And>a b. emits Q (f a b)) \<Longrightarrow> emits Q (case p of (a, b) \<Rightarrow> f a b)"
  by (cases p) simp

lemma emits_case_option:
  "emits Q a \<Longrightarrow> (\<And>x. emits Q (f x)) \<Longrightarrow> emits Q (case v of None \<Rightarrow> a | Some x \<Rightarrow> f x)"
  by (cases v) simp_all

lemmas emits_intros = emits_returnM emits_raiseM emits_exists_path emits_logger emits_call
  emits_subprocess_run emits_bindM emits_thenM emits_try_except emits_if emits_case_prod
  emits_case_option

lemma emits_bucket_exists:
  "Q (HeadBucket b) \<Longrightarrow> Q (Log ERROR) \<Longrightarrow> emits Q (bucket_exists E b)"
  unfolding bucket_exists_def
  by (intro emits_intros) (auto split: exn.splits intro!: emits_intros)

lemma emits_ensure_git_repository: "emits setup_event (ensure_git_repository E W)"
  unfolding ensure_git_repository_def Let_def
  by (intro emits_intros) simp_all

lemma emits_configure_remote: "emits setup_event (configure_remote E W p b st)"
  unfolding configure_remote_def Let_def
  by (intro emits_intros emits_bucket_exists) (auto split: exn.splits intro!: emits_intros)

lemma emits_initialize_dvc: "emits setup_event (initialize_dvc E W p st)"
  unfolding initialize_dvc_def Let_def
  by (intro emits_intros emits_ensure_git_repository emits_configure_remote) simp_all

lemma emits_ensure_dvc_repository: "emits setup_event (ensure_dvc_repository E W p st)"
  unfolding ensure_dvc_repository_def Let_def
  by (intro emits_intros emits_initialize_dvc) simp_all

lemma setup_event_not_pull: "setup_event ev \<Longrightarrow> \<not> is_dvc_pull ev"
  by (cases ev) auto

lemma setup_event_not_download: "setup_event ev \<Longrightarrow> \<not> is_download_file ev"
  by (cases ev) auto

lemma emits_upload_dvc_file_to_minio:
  "emits (\<lambda>ev. case ev of
             UploadFile l b k \<Rightarrow> b = minio_bucket W \<and>
               k = dag_id W @ ''_'' @ execution_id W @ ''/'' @ st @ ''/dvc_files/'' @ name p
           | _ \<Rightarrow> True)
         (upload_dvc_file_to_minio E W p st)"
  unfolding upload_dvc_file_to_minio_def Let_def
  by (intro emits_intros emits_bucket_exists) (auto intro!: emits_intros)

lemma emits_pull:
  "emits (\<lambda>ev. case ev of
             DownloadFile b k l \<Rightarrow> b = minio_bucket W \<and>
               k = dag_id W @ ''_'' @ execution_id W @ ''/'' @ st @ ''/dvc_files/'' @ fn
           | _ \<Rightarrow> True)
         (pull E W st fn dest)"
  unfolding pull_def Let_def
  apply (intro emits_intros emits_weaken[OF emits_ensure_dvc_repository])
  apply (auto intro!: emits_intros split: exn.splits event.splits)
  done

subsection \<open>Operations that never raise\<close>

text \<open>A \<^verbatim>\<open>try\<close> whose \<^verbatim>\<open>except\<close> clauses match every exception, each returning a
  value, returns a value.\<close>

lemma try_except_total:
  assumes "\<And>e. \<exists>k. h e = Some k \<and> (\<forall>s. \<exists>r s'. k s = (Inr r, s'))"
  shows "\<exists>r s'. try_except m h s = (Inr r, s')"
proof (cases "m s")
  case (Pair r s1)
  show ?thesis
  proof (cases r)
    case (Inr x)
    with Pair show ?thesis by (simp add: try_except_def)
  next
    case (Inl e)
    from assms[of e] obtain k where k: "h e = Some k" "\<forall>s. \<exists>r s'. k s = (Inr r, s')"
      by blast
    from k(2) obtain r2 s2 where "k s1 = (Inr r2, s2)" by blast
    with Pair Inl k(1) show ?thesis by (simp add: try_except_def)
  qed
qed

lemma push_returns: "\<exists>r s'. push E p s = (Inr r, s')"
  unfolding push_def Let_def
  by (rule try_except_total) (simp add: io_defs split: exn.splits)

lemma upload_dvc_file_to_minio_returns:
  "\<exists>r s'. upload_dvc_file_to_minio E W p st s = (Inr r, s')"
  unfolding upload_dvc_file_to_minio_def
  by (rule try_except_total) (simp add: io_defs split: exn.splits)


lemma add_raises:
  "\<not> path_exists E p (world s) \<Longrightarrow>
   add E W p n st s =
     (Inl (FileNotFoundError (''The folder '' @ apostrophe @ str_path p @ apostrophe
             @ '' does not exist.'')), s)"
  by (simp add: add_def io_defs)

text \<open>An exception that leaves \<open>ensure_dvc_repository\<close> is caught by the outer
  \<^verbatim>\<open>except\<close> clauses of \<open>pull\<close>, which log it and return its text.\<close>

lemma pull_setup_raises:
  "path_exists E dest (world s) \<Longrightarrow> ensure_dvc_repository E W dest st s = (Inl x, sa) \<Longrightarrow>
   pull E W st fn dest s =
     (Inr [(''status'', ''error''), (''message'', str_exn x)],
      sa\<lparr>trace := trace sa @ [Log ERROR]\<rparr>)"
  by (cases x) (simp_all add: pull_def io_defs)

section \<open>The claims\<close>

subsection \<open>C1: publish is add, then push, then upload, stopping at the first error\<close>

text \<open>
  C1. \<open>add_and_push_data\<close> runs \<open>add\<close> on the state it is given, \<open>push\<close> on the
  state \<open>add\<close> leaves and \<open>upload_dvc_file_to_minio\<close> (on
  \<^verbatim>\<open>{folder_name}.dvc\<close> in the parent directory) on the state \<open>push\<close> leaves. When a
  step returns a dictionary whose status is \<^verbatim>\<open>"error"\<close>, the operation returns that
  dictionary as it is, in the state that step left, so no later step has run. When all
  three return another status, it returns the success dictionary in the state the upload
  left. \<open>push\<close> and \<open>upload_dvc_file_to_minio\<close> always return a dictionary, so
  the only other outcome is that \<open>add\<close> raises, and then \<open>add_and_push_data\<close>
  raises the same exception in the state \<open>add\<close> left. This holds for every folder
  path: for one that does not exist, \<open>add\<close> raises without doing anything, and the
  check \<open>add_and_push_data\<close> makes first raises the same exception in the same state.
\<close>

theorem add_and_push_data_sequence:
 "(add E W p n st s = (Inl e, sa) \<longrightarrow> add_and_push_data E W p n st s = (Inl e, sa)) \<and>
  (add E W p n st s = (Inr ra, sa) \<and> status ra = Some ''error'' \<longrightarrow>
     add_and_push_data E W p n st s = (Inr ra, sa)) \<and>
  (add E W p n st s = (Inr ra, sa) \<and> status ra \<noteq> Some ''error'' \<and>
   push E p sa = (Inr rb, sb) \<and> status rb = Some ''error'' \<longrightarrow>
     add_and_push_data E W p n st s = (Inr rb, sb)) \<and>
  (add E W p n st s = (Inr ra, sa) \<and> status ra \<noteq> Some ''error'' \<and>
   push E p sa = (Inr rb, sb) \<and> status rb \<noteq> Some ''error'' \<and>
   upload_dvc_file_to_minio E W (joinpath (parent p) (n @ ''.dvc'')) st sb = (Inr rc, sc) \<and>
   status rc = Some ''error'' \<longrightarrow>
     add_and_push_data E W p n st s = (Inr rc, sc)) \<and>
  (add E W p n st s = (Inr ra, sa) \<and> status ra \<noteq> Some ''error'' \<and>
   push E p sa = (Inr rb, sb) \<and> status rb \<noteq> Some ''error'' \<and>
   upload_dvc_file_to_minio E W (joinpath (parent p) (n @ ''.dvc'')) st sb = (Inr rc, sc) \<and>
   status rc \<noteq> Some ''error'' \<longrightarrow>
     add_and_push_data E W p n st s =
       (Inr [(''status'', ''success''),
             (''message'', ''Data added to DVC, pushed to remote storage, and .dvc file uploaded to MinIO.'')],
        sc)) \<and>
  (\<exists>r s'. push E p sa = (Inr r, s')) \<and>
  (\<exists>r s'. upload_dvc_file_to_minio E W (joinpath (parent p) (n @ ''.dvc'')) st sb = (Inr r, s'))"
proof (cases "path_exists E p (world s)")
  case True
  with push_returns[of E p sa]
    upload_dvc_file_to_minio_returns[of E W "joinpath (parent p) (n @ ''.dvc'')" st sb]
  show ?thesis
    by (simp add: add_and_push_data_def bindM_def returnM_def exists_path_def Let_def)
next
  case False
  from add_raises[OF False, of W n st] push_returns[of E p sa]
    upload_dvc_file_to_minio_returns[of E W "joinpath (parent p) (n @ ''.dvc'')" st sb]
  show ?thesis using False
    by (auto simp add: add_and_push_data_def bindM_def raiseM_def exists_path_def)
qed

theorem add_and_push_data_sequence_witness:
  "(let s = sim_state sim_world;
        a = add sim_env sim_worker [''out'', ''result''] ''result'' ''preprocess'' s;
        b = push sim_env [''out'', ''result''] (snd a);
        c = upload_dvc_file_to_minio sim_env sim_worker [''out'', ''result.dvc''] ''preprocess''
              (snd b)
    in fst a = Inr [(''status'', ''success''),
                    (''message'',
                     ''Folder result added to DVC tracking and DVC file committed to Git.'')] \<and>
       fst b = Inr [(''status'', ''success''), (''stdout'', []), (''stderr'', [])] \<and>
       fst c = Inr [(''status'', ''success''),
                    (''message'', ''Uploaded .dvc file to MinIO at bkt/P1_R1/preprocess/dvc_files/result.dvc'')] \<and>
       add_and_push_data sim_env sim_worker [''out'', ''result''] ''result'' ''preprocess'' s =
         (Inr [(''status'', ''success''),
               (''message'', ''Data added to DVC, pushed to remote storage, and .dvc file uploaded to MinIO.'')],
          snd c)) \<and>
   (let s = sim_state (sim_world\<lparr>failing := [[''dvc'', ''push'']]\<rparr>);
        a = add sim_env sim_worker [''out'', ''result''] ''result'' ''preprocess'' s;
        b = push sim_env [''out'', ''result''] (snd a)
    in fst a = Inr [(''status'', ''success''),
                    (''message'',
                     ''Folder result added to DVC tracking and DVC file committed to Git.'')] \<and>
       fst b = Inr [(''status'', ''error''), (''stdout'', []), (''stderr'', ''failed'')] \<and>
       add_and_push_data sim_env sim_worker [''out'', ''result''] ''result'' ''preprocess'' s = b \<and>
       trace (snd b) =
         [Subprocess [''dvc'', ''add'', ''/out/result''] [''out''], Log INFO, Log INFO,
          Mkdir [''repo'', ''preprocess'', ''preprocess_result''], Log INFO,
          Copy ''/out/result.dvc'' ''/repo/preprocess/preprocess_result'',
          Subprocess [''git'', ''add'', ''.''] [''repo''],
          Subprocess [''git'', ''status'', ''--porcelain''] [''repo''],
          Subprocess [''git'', ''commit'', ''-m'', ''Add result dataset DVC file''] [''repo''],
          Log INFO, Subprocess [''dvc'', ''push''] [''out''], Log ERROR, Log ERROR])"
proof -
  let ?s = "sim_state sim_world"
  let ?tracked = "sim_world\<lparr>files := [''repo'', ''preprocess'', ''preprocess_result'']
                    # [''out'', ''result.dvc''] # files sim_world\<rparr>"
  let ?ta = "[Subprocess [''dvc'', ''add'', ''/out/result''] [''out''], Log INFO, Log INFO,
          Mkdir [''repo'', ''preprocess'', ''preprocess_result''], Log INFO,
          Copy ''/out/result.dvc'' ''/repo/preprocess/preprocess_result'',
          Subprocess [''git'', ''add'', ''.''] [''repo''],
          Subprocess [''git'', ''status'', ''--porcelain''] [''repo''],
          Subprocess [''git'', ''commit'', ''-m'', ''Add result dataset DVC file''] [''repo''],
          Log INFO]"
  let ?ra = "[(''status'', ''success''),
              (''message'', ''Folder result added to DVC tracking and DVC file committed to Git.'')]"
  let ?rb = "[(''status'', ''success''), (''stdout'', []), (''stderr'', [])]"
  let ?rc = "[(''status'', ''success''),
              (''message'', ''Uploaded .dvc file to MinIO at bkt/P1_R1/preprocess/dvc_files/result.dvc'')]"
  let ?sa = "\<lparr>world = ?tracked, trace = ?ta\<rparr>"
  let ?sb = "\<lparr>world = ?tracked, trace = ?ta @ [Subprocess [''dvc'', ''push''] [''out''], Log INFO]\<rparr>"
  let ?sc = "\<lparr>world = ?tracked\<lparr>buckets := [''bkt''],
                 objects := [(''bkt'', ''P1_R1/preprocess/dvc_files/result.dvc'')]\<rparr>,
              trace = ?ta @ [Subprocess [''dvc'', ''push''] [''out''], Log INFO,
                 HeadBucket ''bkt'', Log INFO, CreateBucket ''bkt'', Log INFO,
                 UploadFile ''/out/result.dvc'' ''bkt'' ''P1_R1/preprocess/dvc_files/result.dvc'',
                 Log INFO]\<rparr>"
  have a: "add sim_env sim_worker [''out'', ''result''] ''result'' ''preprocess'' ?s = (Inr ?ra, ?sa)"
    by (simp add: eval_defs)
  have b: "push sim_env [''out'', ''result''] ?sa = (Inr ?rb, ?sb)"
    by (simp add: eval_defs)
  have c: "upload_dvc_file_to_minio sim_env sim_worker [''out'', ''result.dvc''] ''preprocess'' ?sb
             = (Inr ?rc, ?sc)"
    by (simp add: eval_defs)
  let ?s' = "sim_state (sim_world\<lparr>failing := [[''dvc'', ''push'']]\<rparr>)"
  let ?tracked' = "sim_world\<lparr>files := [''repo'', ''preprocess'', ''preprocess_result'']
                    # [''out'', ''result.dvc''] # files sim_world, failing := [[''dvc'', ''push'']]\<rparr>"
  let ?sa' = "\<lparr>world = ?tracked', trace = ?ta\<rparr>"
  let ?rb' = "[(''status'', ''error''), (''stdout'', []), (''stderr'', ''failed'')]"
  let ?sb' = "\<lparr>world = ?tracked', trace = ?ta @ [Subprocess [''dvc'', ''push''] [''out''], Log ERROR, Log ERROR]\<rparr>"
  have a': "add sim_env sim_worker [''out'', ''result''] ''result'' ''preprocess'' ?s' = (Inr ?ra, ?sa')"
    by (simp add: eval_defs)
  have b': "push sim_env [''out'', ''result''] ?sa' = (Inr ?rb', ?sb')"
    by (simp add: eval_defs)
  have j: "joinpath (parent [''out'', ''result'']) (''result'' @ ''.dvc'') = [''out'', ''result.dvc'']"
    by (simp add: joinpath_def parent_def)
  from add_and_push_data_sequence[where E=sim_env and W=sim_worker and p="[''out'', ''result'']"
          and n="''result''" and st="''preprocess''" and s="?s"
          and ra="?ra" and sa="?sa" and rb="?rb" and sb="?sb" and rc="?rc" and sc="?sc"]
       a b c j
  have g: "add_and_push_data sim_env sim_worker [''out'', ''result''] ''result'' ''preprocess'' ?s =
         (Inr [(''status'', ''success''),
               (''message'', ''Data added to DVC, pushed to remote storage, and .dvc file uploaded to MinIO.'')],
          ?sc)"
    by (simp add: status_def)
  from add_and_push_data_sequence[where E=sim_env and W=sim_worker and p="[''out'', ''result'']"
          and n="''result''" and st="''preprocess''" and s="?s'"
          and ra="?ra" and sa="?sa'" and rb="?rb'" and sb="?sb'"]
       a' b'
  have g': "add_and_push_data sim_env sim_worker [''out'', ''result''] ''result'' ''preprocess'' ?s' =
         (Inr ?rb', ?sb')"
    by (simp add: status_def)
  from a b c a' b' g g' show ?thesis
    by (simp add: Let_def)
qed

subsection \<open>C2: add and the result of the commit step\<close>

text \<open>
  C2 says that \<open>add\<close> returns success only if the copy and the commit step both
  report success. The code calls \<open>git_add_commit_and_push\<close> and drops what it returns.
  In the simulated world where \<^verbatim>\<open>git commit\<close> exits with a non-zero status, the commit
  step returns an error dictionary, and \<open>add\<close>, whose trace shows the failed commit and
  the error log line of the commit step, still returns success with the message that the
  file was committed.
\<close>

theorem add_reports_success_when_commit_fails:
  "fst (git_add_commit_and_push sim_env sim_worker [''repo''] ''Add result dataset DVC file''
          (sim_state (sim_world\<lparr>failing := [[''git'', ''commit'']]\<rparr>))) =
     Inr [(''status'', ''error''), (''message'', ''non-zero exit status'')] \<and>
   fst (add sim_env sim_worker [''out'', ''result''] ''result'' ''preprocess''
          (sim_state (sim_world\<lparr>failing := [[''git'', ''commit'']]\<rparr>))) =
     Inr [(''status'', ''success''),
          (''message'', ''Folder result added to DVC tracking and DVC file committed to Git.'')] \<and>
   trace (snd (add sim_env sim_worker [''out'', ''result''] ''result'' ''preprocess''
          (sim_state (sim_world\<lparr>failing := [[''git'', ''commit'']]\<rparr>)))) =
     [Subprocess [''dvc'', ''add'', ''/out/result''] [''out''], Log INFO, Log INFO,
      Mkdir [''repo'', ''preprocess'', ''preprocess_result''], Log INFO,
      Copy ''/out/result.dvc'' ''/repo/preprocess/preprocess_result'',
      Subprocess [''git'', ''add'', ''.''] [''repo''],
      Subprocess [''git'', ''status'', ''--porcelain''] [''repo''],
      Subprocess [''git'', ''commit'', ''-m'', ''Add result dataset DVC file''] [''repo''],
      Log ERROR]"
  by (simp add: eval_defs)

subsection \<open>C3: the tracking command succeeds but leaves no manifest\<close>

text \<open>
  C3. When the folder exists, \<^verbatim>\<open>dvc add\<close> exits with status zero (leaving the world
  \<open>w'\<close>) and \<^verbatim>\<open>{folder_name}.dvc\<close> is absent from the parent directory afterwards,
  \<open>add\<close> returns the error result \<^verbatim>\<open>.dvc file not found for {folder_name}.\<close> and
  has done nothing but run the tracking command and log twice: no directory creation, no
  copy into the archive, no Git command.
\<close>
theorem add_manifest_absent:
  assumes "path_exists E folder_path (world s)"
    and "run_checked E [''dvc'', ''add'', str_path folder_path] (parent folder_path) (world s)
           = (Inr out, w')"
    and "\<not> path_exists E (joinpath (parent folder_path) (folder_name @ ''.dvc'')) w'"
  shows "add E W folder_path folder_name stage_type s =
    (Inr [(''status'', ''error''),
          (''message'', ''.dvc file not found for '' @ folder_name @ ''.'')],
     s\<lparr>world := w',
       trace := trace s @
         [Subprocess [''dvc'', ''add'', str_path folder_path] (parent folder_path),
          Log INFO, Log ERROR]\<rparr>)"
  using assms by (simp add: add_def io_defs)

theorem add_manifest_absent_witness:
  "path_exists sim_env [''out'', ''result'']
     (world (sim_state (sim_world\<lparr>writes_dvc_file := False\<rparr>))) \<and>
   run_checked sim_env [''dvc'', ''add'', str_path [''out'', ''result'']]
     (parent [''out'', ''result''])
     (world (sim_state (sim_world\<lparr>writes_dvc_file := False\<rparr>))) =
     (Inr ([], []), sim_world\<lparr>writes_dvc_file := False\<rparr>) \<and>
   \<not> path_exists sim_env (joinpath (parent [''out'', ''result'']) (''result'' @ ''.dvc''))
     (sim_world\<lparr>writes_dvc_file := False\<rparr>) \<and>
   add sim_env sim_worker [''out'', ''result''] ''result'' ''preprocess''
     (sim_state (sim_world\<lparr>writes_dvc_file := False\<rparr>)) =
     (Inr [(''status'', ''error''), (''message'', ''.dvc file not found for result.'')],
      \<lparr>world = sim_world\<lparr>writes_dvc_file := False\<rparr>,
       trace = [Subprocess [''dvc'', ''add'', ''/out/result''] [''out''], Log INFO,
                Log ERROR]\<rparr>)"
  using add_manifest_absent[of sim_env "[''out'', ''result'']"
          "sim_state (sim_world\<lparr>writes_dvc_file := False\<rparr>)" "([], [])"
          "sim_world\<lparr>writes_dvc_file := False\<rparr>" "''result''" sim_worker "''preprocess''"]
  by (simp add: sim_defs)

subsection \<open>C4: which failures are raised and which are returned\<close>




text \<open>
  Not every failure is reported: \<open>ensure_dvc_repository\<close> drops the dictionary of
  \<open>initialize_dvc\<close>, so when \<^verbatim>\<open>dvc remote add\<close> exits with a non-zero status
  \<open>configure_remote\<close> returns an error dictionary and \<open>pull\<close> goes on to return
  success.
\<close>

lemma pull_success_when_remote_configuration_fails:
  "fst (configure_remote sim_env sim_worker [''in''] ''bkt'' ''preprocess''
          (sim_state (sim_world\<lparr>failing := [[''dvc'', ''remote'']], buckets := [''bkt''],
             objects := [(''bkt'', ''P1_R1/preprocess/dvc_files/result.dvc'')]\<rparr>))) =
     Inr [(''status'', ''error''), (''message'', ''non-zero exit status'')] \<and>
   fst (pull sim_env sim_worker ''preprocess'' ''result.dvc'' [''in'']
          (sim_state (sim_world\<lparr>failing := [[''dvc'', ''remote'']], buckets := [''bkt''],
             objects := [(''bkt'', ''P1_R1/preprocess/dvc_files/result.dvc'')]\<rparr>))) =
     Inr [(''status'', ''success''), (''stdout'', []), (''stderr'', [])]"
  by (simp add: eval_defs)

subsection \<open>C5: add on a folder that does not exist\<close>

text \<open>
  C5 says that \<open>add\<close> returns NotFoundError for a folder that does not exist. The code
  does not return: with no folder \<^verbatim>\<open>/missing\<close> on disk, the outcome of \<open>add\<close> is the
  exception \<^verbatim>\<open>FileNotFoundError\<close>, raised to the caller, and not a result dictionary.
\<close>

theorem add_raises_counterexample:
  "\<not> path_exists sim_env [''missing''] (world (sim_state sim_world)) \<and>
   isl (fst (add sim_env sim_worker [''missing''] ''missing'' ''preprocess''
               (sim_state sim_world))) \<and>
   fst (add sim_env sim_worker [''missing''] ''missing'' ''preprocess'' (sim_state sim_world)) =
     Inl (FileNotFoundError (''The folder '' @ apostrophe @ ''/missing'' @ apostrophe
            @ '' does not exist.''))"
  by (simp add: add_def io_defs sim_defs)

text \<open>
  C5, as the code has it. For every \<open>folder_path\<close> that does not exist on disk,
  \<open>add\<close> raises \<^verbatim>\<open>FileNotFoundError\<close> to the caller and has no side effect: the state
  after is the state before, so no tracking command was run, nothing was written to the
  manifest archive, no commit was made, and the trace is unchanged.
\<close>

theorem add_missing_folder:
  "\<not> path_exists E folder_path (world s) \<Longrightarrow>
   add E W folder_path folder_name stage_type s =
     (Inl (FileNotFoundError (''The folder '' @ apostrophe @ str_path folder_path @ apostrophe
             @ '' does not exist.'')), s)"
  by (simp add: add_def io_defs)

theorem add_missing_folder_witness:
  "\<not> path_exists sim_env [''missing''] (world (sim_state sim_world)) \<and>
   add sim_env sim_worker [''missing''] ''missing'' ''preprocess'' (sim_state sim_world) =
     (Inl (FileNotFoundError (''The folder '' @ apostrophe @ ''/missing'' @ apostrophe
             @ '' does not exist.'')), sim_state sim_world)"
  using add_missing_folder[of sim_env "[''missing'']" "sim_state sim_world" sim_worker
          "''missing''" "''preprocess''"]
  by (simp add: sim_defs)

subsection \<open>C6: the manifest is fetched under the key it was uploaded under\<close>

text \<open>
  C6. Whatever \<open>upload_dvc_file_to_minio\<close> uploads for the manifest path \<open>p\<close> and
  stage type \<open>st\<close>, and whatever \<open>pull\<close> downloads for the same stage type and the
  file name of \<open>p\<close>, the bucket and the key are the same, and the key is
  \<^verbatim>\<open>{dag_id}_{execution_id}/{stage_type}/dvc_files/{file name}\<close>. In the simulated world, an upload followed by a
  pull: the object uploaded is the object downloaded.
\<close>

theorem manifest_key_round_trip:
  assumes "UploadFile l b k \<in> set (new_events s (snd (upload_dvc_file_to_minio E W p st s)))"
      and "DownloadFile b' k' l' \<in> set (new_events t (snd (pull E W st (name p) dest t)))"
  shows "k = k' \<and> b = b' \<and>
         k = dag_id W @ ''_'' @ execution_id W @ ''/'' @ st @ ''/dvc_files/'' @ name p"
  using emits_new_events[OF emits_upload_dvc_file_to_minio assms(1)]
        emits_new_events[OF emits_pull assms(2)]
  by simp

theorem manifest_key_round_trip_witness:
  "UploadFile ''/out/result.dvc'' ''bkt'' ''P1_R1/preprocess/dvc_files/result.dvc''
     \<in> set (new_events (sim_state sim_world)
              (snd (upload_dvc_file_to_minio sim_env sim_worker [''out'', ''result.dvc'']
                      ''preprocess'' (sim_state sim_world)))) \<and>
   DownloadFile ''bkt'' ''P1_R1/preprocess/dvc_files/result.dvc'' ''/in/result.dvc''
     \<in> set (new_events
              (snd (upload_dvc_file_to_minio sim_env sim_worker [''out'', ''result.dvc'']
                      ''preprocess'' (sim_state sim_world)))
              (snd (pull sim_env sim_worker ''preprocess'' (name [''out'', ''result.dvc''])
                      [''in'']
                      (snd (upload_dvc_file_to_minio sim_env sim_worker
                              [''out'', ''result.dvc''] ''preprocess''
                              (sim_state sim_world)))))) \<and>
   ''P1_R1/preprocess/dvc_files/result.dvc'' =
     dag_id sim_worker @ ''_'' @ execution_id sim_worker @ ''/'' @ ''preprocess''
       @ ''/dvc_files/'' @ name [''out'', ''result.dvc'']"
proof -
  let ?t = "\<lparr>world = sim_world\<lparr>buckets := [''bkt''],
                 objects := [(''bkt'', ''P1_R1/preprocess/dvc_files/result.dvc'')]\<rparr>,
             trace = [HeadBucket ''bkt'', Log INFO, CreateBucket ''bkt'', Log INFO,
                 UploadFile ''/out/result.dvc'' ''bkt'' ''P1_R1/preprocess/dvc_files/result.dvc'',
                 Log INFO]\<rparr>"
  have u: "snd (upload_dvc_file_to_minio sim_env sim_worker [''out'', ''result.dvc'']
                  ''preprocess'' (sim_state sim_world)) = ?t"
    by (simp add: eval_defs)
  have up: "UploadFile ''/out/result.dvc'' ''bkt'' ''P1_R1/preprocess/dvc_files/result.dvc''
     \<in> set (new_events (sim_state sim_world)
              (snd (upload_dvc_file_to_minio sim_env sim_worker [''out'', ''result.dvc'']
                      ''preprocess'' (sim_state sim_world))))"
    unfolding u by (simp add: new_events_def sim_state_def)
  have down: "DownloadFile ''bkt'' ''P1_R1/preprocess/dvc_files/result.dvc'' ''/in/result.dvc''
     \<in> set (new_events ?t
              (snd (pull sim_env sim_worker ''preprocess'' (name [''out'', ''result.dvc''])
                      [''in''] ?t)))"
    by (simp add: eval_defs)
  from manifest_key_round_trip[where E=sim_env and W=sim_worker
         and p="[''out'', ''result.dvc'']" and st="''preprocess''" and s="sim_state sim_world"
         and t="?t" and dest="[''in'']", OF up down] up down
  show ?thesis unfolding u by simp
qed

subsection \<open>C7: pull when the manifest is not in the store\<close>

text \<open>
  C7 says that every \<open>pull\<close> whose destination folder exists and whose manifest is
  not in the store returns the storage error. \<open>pull\<close> first calls
  \<open>ensure_dvc_repository\<close>; in a destination folder without \<^verbatim>\<open>.dvc\<close>, when
  \<^verbatim>\<open>dvc init\<close> exits with a non-zero status, the exception is caught by the outer
  \<^verbatim>\<open>except\<close> clause: the dictionary returned carries the text of that exception, and
  the store was never asked for the manifest.
\<close>

theorem pull_setup_failure_counterexample:
  "path_exists sim_env [''in''] (world (sim_state (sim_world\<lparr>failing := [[''dvc'', ''init'']]\<rparr>))) \<and>
   fst (download_file sim_env ''bkt'' ''P1_R1/preprocess/dvc_files/absent.dvc'' ''/in/absent.dvc''
          (sim_world\<lparr>failing := [[''dvc'', ''init'']]\<rparr>)) = Some (OtherException ''Not Found'') \<and>
   pull sim_env sim_worker ''preprocess'' ''absent.dvc'' [''in'']
     (sim_state (sim_world\<lparr>failing := [[''dvc'', ''init'']]\<rparr>)) =
     (Inr [(''status'', ''error''), (''message'', ''non-zero exit status'')],
      \<lparr>world = sim_world\<lparr>failing := [[''dvc'', ''init'']]\<rparr>,
       trace = [Log INFO, Log DEBUG, Subprocess [''dvc'', ''init'', ''--no-scm''] [''in''],
                Log ERROR]\<rparr>)"
  by (simp add: eval_defs)

text \<open>
  C7, as the code has it. When the destination folder exists and the download of the
  manifest raises (in the world \<open>ensure_dvc_repository\<close> leaves), \<open>pull\<close> returns a
  dictionary with status \<^verbatim>\<open>"error"\<close> and no \<^verbatim>\<open>dvc pull\<close> is among the events it
  caused. When \<open>ensure_dvc_repository\<close> returned without raising, that dictionary is
  the download failure, \<^verbatim>\<open>"Failed to download .dvc file from MinIO: ..."\<close>, and after
  the download attempt \<open>pull\<close> only logs the error. When \<open>ensure_dvc_repository\<close>
  raised, the dictionary carries the text of that exception, \<open>pull\<close> only logs the
  error after it, and no download is among the events \<open>pull\<close> caused.
\<close>

theorem pull_manifest_not_in_store:
  assumes "path_exists E dest (world s)"
      and "ensure_dvc_repository E W dest st s = (ra, sa)"
      and "download_file E (minio_bucket W)
             (dag_id W @ ''_'' @ execution_id W @ ''/'' @ st @ ''/dvc_files/'' @ fn)
             (str_path (joinpath dest fn)) (world sa) = (Some e, wb)"
  shows "(\<exists>r s'. pull E W st fn dest s = (Inr r, s') \<and> status r = Some ''error'' \<and>
            \<not> list_ex is_dvc_pull (new_events s s')) \<and>
         (ra = Inr () \<longrightarrow>
            pull E W st fn dest s =
              (Inr [(''status'', ''error''),
                    (''message'', ''Failed to download .dvc file from MinIO: '' @ str_exn e)],
               sa\<lparr>world := wb, trace := trace sa @
                     [Log INFO,
                      DownloadFile (minio_bucket W)
                        (dag_id W @ ''_'' @ execution_id W @ ''/'' @ st @ ''/dvc_files/'' @ fn)
                        (str_path (joinpath dest fn)),
                      Log ERROR]\<rparr>)) \<and>
         (ra = Inl x \<longrightarrow>
            pull E W st fn dest s =
              (Inr [(''status'', ''error''), (''message'', str_exn x)],
               sa\<lparr>trace := trace sa @ [Log ERROR]\<rparr>) \<and>
            \<not> list_ex is_download_file (new_events s (snd (pull E W st fn dest s))))"
proof -
  from emitsD[OF emits_ensure_dvc_repository assms(2)] obtain evs
    where evs: "trace sa = trace s @ evs" "list_all setup_event evs" by blast
  from evs(2) have nopull: "\<not> list_ex is_dvc_pull evs"
    by (auto simp add: list_all_iff list_ex_iff dest: setup_event_not_pull)
  from evs(2) have nodown: "\<not> list_ex is_download_file evs"
    by (auto simp add: list_all_iff list_ex_iff dest: setup_event_not_download)
  show ?thesis
  proof (cases ra)
    case (Inl y)
    from pull_setup_raises[OF assms(1) assms(2)[unfolded Inl], of fn]
    have p: "pull E W st fn dest s =
               (Inr [(''status'', ''error''), (''message'', str_exn y)],
                sa\<lparr>trace := trace sa @ [Log ERROR]\<rparr>)" .
    with Inl evs nopull nodown show ?thesis
      by (simp add: status_def new_events_def)
  next
    case (Inr u)
    with assms evs nopull show ?thesis
      by (simp add: pull_def io_defs status_def new_events_def)
  qed
qed

theorem pull_manifest_not_in_store_witness:
  "path_exists sim_env [''in''] (world (sim_state sim_world)) \<and>
   fst (ensure_dvc_repository sim_env sim_worker [''in''] ''preprocess'' (sim_state sim_world))
     = Inr () \<and>
   download_file sim_env (minio_bucket sim_worker)
     (dag_id sim_worker @ ''_'' @ execution_id sim_worker @ ''/'' @ ''preprocess''
        @ ''/dvc_files/'' @ ''absent.dvc'')
     (str_path (joinpath [''in''] ''absent.dvc''))
     (world (snd (ensure_dvc_repository sim_env sim_worker [''in''] ''preprocess''
                    (sim_state sim_world)))) =
     (Some (OtherException ''Not Found''), sim_world\<lparr>buckets := [''bkt'']\<rparr>) \<and>
   fst (pull sim_env sim_worker ''preprocess'' ''absent.dvc'' [''in''] (sim_state sim_world)) =
     Inr [(''status'', ''error''),
          (''message'', ''Failed to download .dvc file from MinIO: Not Found'')] \<and>
   \<not> list_ex is_dvc_pull
       (new_events (sim_state sim_world)
          (snd (pull sim_env sim_worker ''preprocess'' ''absent.dvc'' [''in'']
                  (sim_state sim_world)))) \<and>
   path_exists sim_env [''in'']
     (world (sim_state (sim_world\<lparr>failing := [[''dvc'', ''init'']]\<rparr>))) \<and>
   ensure_dvc_repository sim_env sim_worker [''in''] ''preprocess''
     (sim_state (sim_world\<lparr>failing := [[''dvc'', ''init'']]\<rparr>)) =
     (Inl (CalledProcessError ''non-zero exit status'' [] ''failed''),
      \<lparr>world = sim_world\<lparr>failing := [[''dvc'', ''init'']]\<rparr>,
       trace = [Log INFO, Log DEBUG, Subprocess [''dvc'', ''init'', ''--no-scm''] [''in'']]\<rparr>) \<and>
   download_file sim_env (minio_bucket sim_worker)
     (dag_id sim_worker @ ''_'' @ execution_id sim_worker @ ''/'' @ ''preprocess''
        @ ''/dvc_files/'' @ ''absent.dvc'')
     (str_path (joinpath [''in''] ''absent.dvc''))
     (sim_world\<lparr>failing := [[''dvc'', ''init'']]\<rparr>) =
     (Some (OtherException ''Not Found''), sim_world\<lparr>failing := [[''dvc'', ''init'']]\<rparr>) \<and>
   pull sim_env sim_worker ''preprocess'' ''absent.dvc'' [''in'']
     (sim_state (sim_world\<lparr>failing := [[''dvc'', ''init'']]\<rparr>)) =
     (Inr [(''status'', ''error''), (''message'', ''non-zero exit status'')],
      \<lparr>world = sim_world\<lparr>failing := [[''dvc'', ''init'']]\<rparr>,
       trace = [Log INFO, Log DEBUG, Subprocess [''dvc'', ''init'', ''--no-scm''] [''in''],
                Log ERROR]\<rparr>) \<and>
   \<not> list_ex is_download_file
       (new_events (sim_state (sim_world\<lparr>failing := [[''dvc'', ''init'']]\<rparr>))
          (snd (pull sim_env sim_worker ''preprocess'' ''absent.dvc'' [''in'']
                  (sim_state (sim_world\<lparr>failing := [[''dvc'', ''init'']]\<rparr>)))))"
proof -
  let ?sa = "\<lparr>world = sim_world\<lparr>buckets := [''bkt'']\<rparr>,
              trace = [Log INFO, Log DEBUG,
                Subprocess [''dvc'', ''init'', ''--no-scm''] [''in''], Log INFO,
                HeadBucket ''bkt'', CreateBucket ''bkt'', Log INFO,
                Subprocess [''dvc'', ''remote'', ''add'', ''-d'', ''remote_P1_R1'',
                            ''s3://bkt/P1_R1/preprocess/dataset'', ''--force''] [''in''],
                Subprocess [''dvc'', ''remote'', ''modify'', ''remote_P1_R1'', ''endpointurl'',
                            ''http://minio:9000''] [''in''],
                Subprocess [''dvc'', ''remote'', ''modify'', ''remote_P1_R1'', ''access_key_id'',
                            ''ak''] [''in''],
                Subprocess [''dvc'', ''remote'', ''modify'', ''remote_P1_R1'',
                            ''secret_access_key'', ''sk''] [''in''],
                Subprocess [''dvc'', ''remote'', ''modify'', ''remote_P1_R1'', ''use_ssl'',
                            ''false''] [''in''],
                Log INFO, Log INFO]\<rparr>"
  let ?wi = "sim_world\<lparr>failing := [[''dvc'', ''init'']]\<rparr>"
  let ?cpe = "CalledProcessError ''non-zero exit status'' [] ''failed''"
  let ?si = "\<lparr>world = ?wi,
       trace = [Log INFO, Log DEBUG, Subprocess [''dvc'', ''init'', ''--no-scm''] [''in'']]\<rparr>"
  have h1: "path_exists sim_env [''in''] (world (sim_state sim_world))"
    by (simp add: sim_defs)
  have h2: "ensure_dvc_repository sim_env sim_worker [''in''] ''preprocess''
              (sim_state sim_world) = (Inr (), ?sa)"
    by (simp add: eval_defs)
  have h3: "download_file sim_env (minio_bucket sim_worker)
     (dag_id sim_worker @ ''_'' @ execution_id sim_worker @ ''/'' @ ''preprocess''
        @ ''/dvc_files/'' @ ''absent.dvc'')
     (str_path (joinpath [''in''] ''absent.dvc'')) (world ?sa) =
     (Some (OtherException ''Not Found''), sim_world\<lparr>buckets := [''bkt'']\<rparr>)"
    by (simp add: sim_defs)
  have k1: "path_exists sim_env [''in''] (world (sim_state ?wi))"
    by (simp add: sim_defs)
  have k2: "ensure_dvc_repository sim_env sim_worker [''in''] ''preprocess'' (sim_state ?wi)
              = (Inl ?cpe, ?si)"
    by (simp add: eval_defs)
  have k3: "download_file sim_env (minio_bucket sim_worker)
     (dag_id sim_worker @ ''_'' @ execution_id sim_worker @ ''/'' @ ''preprocess''
        @ ''/dvc_files/'' @ ''absent.dvc'')
     (str_path (joinpath [''in''] ''absent.dvc'')) (world ?si) =
     (Some (OtherException ''Not Found''), ?wi)"
    by (simp add: sim_defs)
  from pull_manifest_not_in_store[OF h1 h2 h3]
  have p: "pull sim_env sim_worker ''preprocess'' ''absent.dvc'' [''in''] (sim_state sim_world)
             = (Inr [(''status'', ''error''),
                     (''message'', ''Failed to download .dvc file from MinIO: ''
                        @ str_exn (OtherException ''Not Found''))],
                ?sa\<lparr>world := sim_world\<lparr>buckets := [''bkt'']\<rparr>, trace := trace ?sa @
                     [Log INFO,
                      DownloadFile (minio_bucket sim_worker)
                        (dag_id sim_worker @ ''_'' @ execution_id sim_worker @ ''/''
                           @ ''preprocess'' @ ''/dvc_files/'' @ ''absent.dvc'')
                        (str_path (joinpath [''in''] ''absent.dvc'')),
                      Log ERROR]\<rparr>)"
    and q: "\<exists>r s'. pull sim_env sim_worker ''preprocess'' ''absent.dvc'' [''in'']
                      (sim_state sim_world) = (Inr r, s') \<and> status r = Some ''error'' \<and>
                    \<not> list_ex is_dvc_pull (new_events (sim_state sim_world) s')"
    by blast+
  from pull_manifest_not_in_store[OF k1 k2 k3, where x="?cpe"]
  have r: "pull sim_env sim_worker ''preprocess'' ''absent.dvc'' [''in''] (sim_state ?wi) =
             (Inr [(''status'', ''error''), (''message'', str_exn ?cpe)],
              ?si\<lparr>trace := trace ?si @ [Log ERROR]\<rparr>)"
    and t: "\<not> list_ex is_download_file (new_events (sim_state ?wi)
              (snd (pull sim_env sim_worker ''preprocess'' ''absent.dvc'' [''in'']
                      (sim_state ?wi))))"
    by blast+
  from q p have q': "\<not> list_ex is_dvc_pull
       (new_events (sim_state sim_world)
          (snd (pull sim_env sim_worker ''preprocess'' ''absent.dvc'' [''in'']
                  (sim_state sim_world))))"
    by auto
  from h1 h2 h3 k1 k2 k3 p q' r t show ?thesis by simp
qed

subsection \<open>C8: the commit step of the archive\<close>

text \<open>
  C8. \<open>git_add_commit_and_push\<close> runs \<^verbatim>\<open>git add .\<close> and then
  \<^verbatim>\<open>git status --porcelain\<close>. When both exit with status zero and the status output is
  blank, it returns success with the message \<^verbatim>\<open>No changes to commit in Git repository.\<close>
  and has run nothing else: no \<^verbatim>\<open>git commit\<close>. When the output is not blank, the third
  command it runs is \<^verbatim>\<open>git commit -m\<close> with the message it was given, and it returns
  success when that command exits with status zero.
\<close>

theorem git_add_commit_and_push_contract:
  assumes "run_checked E [''git'', ''add'', ''.''] (git_repo_path W) (world s) = (Inr ra, wa)"
    and "run_checked E [''git'', ''status'', ''--porcelain''] (git_repo_path W) wa
           = (Inr (out, err), wb)"
  shows "(strip out = [] \<longrightarrow>
      git_add_commit_and_push E W project_path message s =
        (Inr [(''status'', ''success''),
              (''message'', ''No changes to commit in Git repository.'')],
         s\<lparr>world := wb, trace := trace s @
            [Subprocess [''git'', ''add'', ''.''] (git_repo_path W),
             Subprocess [''git'', ''status'', ''--porcelain''] (git_repo_path W),
             Log INFO]\<rparr>)) \<and>
    (strip out \<noteq> [] \<longrightarrow>
      take 3 (new_events s (snd (git_add_commit_and_push E W project_path message s))) =
            [Subprocess [''git'', ''add'', ''.''] (git_repo_path W),
             Subprocess [''git'', ''status'', ''--porcelain''] (git_repo_path W),
             Subprocess [''git'', ''commit'', ''-m'', message] (git_repo_path W)]) \<and>
    (strip out \<noteq> [] \<and>
     run_checked E [''git'', ''commit'', ''-m'', message] (git_repo_path W) wb = (Inr rc, wc) \<longrightarrow>
      git_add_commit_and_push E W project_path message s =
        (Inr [(''status'', ''success''),
              (''message'', ''Changes committed (and optionally pushed) to Git repository.'')],
         s\<lparr>world := wc, trace := trace s @
            [Subprocess [''git'', ''add'', ''.''] (git_repo_path W),
             Subprocess [''git'', ''status'', ''--porcelain''] (git_repo_path W),
             Subprocess [''git'', ''commit'', ''-m'', message] (git_repo_path W),
             Log INFO]\<rparr>))"
  using assms
  by (auto simp add: git_add_commit_and_push_def io_defs new_events_def
        split: prod.splits sum.splits exn.splits)

theorem git_add_commit_and_push_contract_witness:
  "run_checked sim_env [''git'', ''add'', ''.''] (git_repo_path sim_worker)
     (world (sim_state (sim_world\<lparr>porcelain := [CHR 0x0A]\<rparr>))) =
     (Inr ([], []), sim_world\<lparr>porcelain := [CHR 0x0A]\<rparr>) \<and>
   run_checked sim_env [''git'', ''status'', ''--porcelain''] (git_repo_path sim_worker)
     (sim_world\<lparr>porcelain := [CHR 0x0A]\<rparr>) =
     (Inr ([CHR 0x0A], []), sim_world\<lparr>porcelain := [CHR 0x0A]\<rparr>) \<and>
   strip [CHR 0x0A] = [] \<and>
   git_add_commit_and_push sim_env sim_worker [''repo''] ''Add result dataset DVC file''
     (sim_state (sim_world\<lparr>porcelain := [CHR 0x0A]\<rparr>)) =
     (Inr [(''status'', ''success''),
           (''message'', ''No changes to commit in Git repository.'')],
      \<lparr>world = sim_world\<lparr>porcelain := [CHR 0x0A]\<rparr>,
       trace = [Subprocess [''git'', ''add'', ''.''] [''repo''],
                Subprocess [''git'', ''status'', ''--porcelain''] [''repo''],
                Log INFO]\<rparr>) \<and>
   run_checked sim_env [''git'', ''add'', ''.''] (git_repo_path sim_worker)
     (world (sim_state sim_world)) = (Inr ([], []), sim_world) \<and>
   run_checked sim_env [''git'', ''status'', ''--porcelain''] (git_repo_path sim_worker) sim_world =
     (Inr (''A  preprocess/preprocess_result/result.dvc'', []), sim_world) \<and>
   strip ''A  preprocess/preprocess_result/result.dvc'' \<noteq> [] \<and>
   run_checked sim_env [''git'', ''commit'', ''-m'', ''Add result dataset DVC file'']
     (git_repo_path sim_worker) sim_world = (Inr ([], []), sim_world) \<and>
   git_add_commit_and_push sim_env sim_worker [''repo''] ''Add result dataset DVC file''
     (sim_state sim_world) =
     (Inr [(''status'', ''success''),
           (''message'', ''Changes committed (and optionally pushed) to Git repository.'')],
      \<lparr>world = sim_world,
       trace = [Subprocess [''git'', ''add'', ''.''] [''repo''],
                Subprocess [''git'', ''status'', ''--porcelain''] [''repo''],
                Subprocess [''git'', ''commit'', ''-m'', ''Add result dataset DVC file'']
                  [''repo''],
                Log INFO]\<rparr>)"
  using git_add_commit_and_push_contract[where E=sim_env and W=sim_worker
          and s="sim_state (sim_world\<lparr>porcelain := [CHR 0x0A]\<rparr>)" and ra="([], [])"
          and wa="sim_world\<lparr>porcelain := [CHR 0x0A]\<rparr>" and out="[CHR 0x0A]" and err="[]"
          and wb="sim_world\<lparr>porcelain := [CHR 0x0A]\<rparr>" and project_path="[''repo'']"
          and message="''Add result dataset DVC file''"]
        git_add_commit_and_push_contract[where E=sim_env and W=sim_worker
          and s="sim_state sim_world" and ra="([], [])" and wa=sim_world
          and out="''A  preprocess/preprocess_result/result.dvc''" and err="[]"
          and wb=sim_world and project_path="[''repo'']"
          and message="''Add result dataset DVC file''" and rc="([], [])" and wc=sim_world]
  by (simp add: sim_defs)

subsection \<open>C9: the bucket-existence check\<close>

text \<open>
  C9. \<open>bucket_exists\<close> returns \<open>True\<close> when the head-bucket probe returns, \<open>False\<close>
  when the probe raises \<^verbatim>\<open>NoSuchBucket\<close> (without logging), and \<open>False\<close> after one
  error log line when the probe raises anything else; it never raises.
\<close>
theorem bucket_exists_contract:
 "(head_bucket E b (world s) = (None, w') \<longrightarrow>
     bucket_exists E b s =
       (Inr True, s\<lparr>world := w', trace := trace s @ [HeadBucket b]\<rparr>)) \<and>
  (head_bucket E b (world s) = (Some (NoSuchBucket m), w') \<longrightarrow>
     bucket_exists E b s =
       (Inr False, s\<lparr>world := w', trace := trace s @ [HeadBucket b]\<rparr>)) \<and>
  (head_bucket E b (world s) = (Some e, w') \<and>
   (case e of NoSuchBucket _ \<Rightarrow> False | _ \<Rightarrow> True) \<longrightarrow>
     bucket_exists E b s =
       (Inr False, s\<lparr>world := w', trace := trace s @ [HeadBucket b, Log ERROR]\<rparr>)) \<and>
  (\<exists>r s'. bucket_exists E b s = (Inr r, s'))"
  by (auto simp add: bucket_exists_def io_defs split: prod.splits option.splits exn.splits)

theorem bucket_exists_contract_witness:
  "head_bucket sim_env ''bkt'' (world (sim_state (sim_world\<lparr>buckets := [''bkt'']\<rparr>))) =
     (None, sim_world\<lparr>buckets := [''bkt'']\<rparr>) \<and>
   bucket_exists sim_env ''bkt'' (sim_state (sim_world\<lparr>buckets := [''bkt'']\<rparr>)) =
     (Inr True, \<lparr>world = sim_world\<lparr>buckets := [''bkt'']\<rparr>, trace = [HeadBucket ''bkt'']\<rparr>) \<and>
   head_bucket sim_env ''bkt'' (world (sim_state sim_world)) =
     (Some (NoSuchBucket ''The specified bucket does not exist''), sim_world) \<and>
   bucket_exists sim_env ''bkt'' (sim_state sim_world) =
     (Inr False, \<lparr>world = sim_world, trace = [HeadBucket ''bkt'']\<rparr>) \<and>
   head_bucket sim_env ''bkt''
     (world (sim_state (sim_world\<lparr>s3_fault := Some (OtherException ''connection refused'')\<rparr>))) =
     (Some (OtherException ''connection refused''),
      sim_world\<lparr>s3_fault := Some (OtherException ''connection refused'')\<rparr>) \<and>
   bucket_exists sim_env ''bkt''
       (sim_state (sim_world\<lparr>s3_fault := Some (OtherException ''connection refused'')\<rparr>)) =
     (Inr False,
      \<lparr>world = sim_world\<lparr>s3_fault := Some (OtherException ''connection refused'')\<rparr>,
       trace = [HeadBucket ''bkt'', Log ERROR]\<rparr>)"
  using bucket_exists_contract[where E=sim_env and b="''bkt''"
          and s="sim_state (sim_world\<lparr>buckets := [''bkt'']\<rparr>)"
          and w'="sim_world\<lparr>buckets := [''bkt'']\<rparr>"]
        bucket_exists_contract[where E=sim_env and b="''bkt''" and s="sim_state sim_world"
          and m="''The specified bucket does not exist''" and w'=sim_world]
        bucket_exists_contract[where E=sim_env and b="''bkt''"
          and s="sim_state (sim_world\<lparr>s3_fault := Some (OtherException ''connection refused'')\<rparr>)"
          and e="OtherException ''connection refused''"
          and w'="sim_world\<lparr>s3_fault := Some (OtherException ''connection refused'')\<rparr>"]
  by (simp add: sim_defs)

subsection \<open>C10: a folder that is already a DVC repository\<close>

text \<open>
  C10. When \<^verbatim>\<open>.dvc\<close> exists in the folder, \<open>ensure_dvc_repository\<close> does nothing at
  all: it returns with the state (world and trace) exactly as it was, so it ran no
  subprocess, made no object-store call, and did not touch the remote configuration.
\<close>
theorem ensure_dvc_repository_noop:
  "path_exists E (joinpath folder_path ''.dvc'') (world s) \<Longrightarrow>
   ensure_dvc_repository E W folder_path stage_type s = (Inr (), s)"
  by (simp add: ensure_dvc_repository_def io_defs)

theorem ensure_dvc_repository_noop_witness:
  "path_exists sim_env (joinpath [''in''] ''.dvc'')
     (world (sim_state (sim_world\<lparr>files := [[''in'', ''.dvc''], [''in'']]\<rparr>))) \<and>
   ensure_dvc_repository sim_env sim_worker [''in''] ''preprocess''
     (sim_state (sim_world\<lparr>files := [[''in'', ''.dvc''], [''in'']]\<rparr>)) =
     (Inr (), sim_state (sim_world\<lparr>files := [[''in'', ''.dvc''], [''in'']]\<rparr>))"
  using ensure_dvc_repository_noop[of sim_env "[''in'']"
          "sim_state (sim_world\<lparr>files := [[''in'', ''.dvc''], [''in'']]\<rparr>)"
          sim_worker "''preprocess''"]
  by (simp add: sim_defs)

end
